theory Spec2Isabelle
  imports Main "HOL-Library.Finite_Map"
begin

section \<open>The games router of \<open>src/routes/games.js\<close>\<close>

text \<open>
  The router maps five HTTP operations onto a lowdb collection \<open>games\<close>, queried through
  lodash chains (\<open>req.app.db.get("games")\<close>), and answers through the Express response
  object \<open>res\<close>. Each handler is embedded as a function of the request, of the collection
  and of the behaviour of the store, returning the outcome of the handler and the
  collection afterwards. Of a request the handlers read the path parameter
  \<open>req.params.id\<close>, a string, and the parsed body \<open>req.body\<close>, a JSON object. The collection
  is the array the database state holds under \<open>games\<close>; the handlers read and mutate it
  in memory. lodash, lowdb, nanoid and Express are libraries the router calls: the
  definitions below give the operations the router uses the meaning these libraries
  give them.
\<close>

subsection \<open>JSON values\<close>

text \<open>
  A value of the collection or of a request body. Numbers are carried through the
  handlers and never inspected, so their type is left open (\<open>'n\<close>). An object is a
  finite map from property names to values; the order of the properties, which only
  the printed JSON text shows, is not part of the model.
\<close>

datatype 'n json =
    JNull
  | JBool bool
  | JNum 'n
  | JStr string
  | JArr "'n json list"
  | JObj "(string, 'n json) fmap"

type_synonym 'n obj = "(string, 'n json) fmap"

text \<open>The property \<open>id\<close> of a value (\<open>value["id"]\<close>); \<open>None\<close> stands for \<open>undefined\<close>.\<close>

fun id_of :: "'n json \<Rightarrow> 'n json option" where
  "id_of (JObj m) = fmlookup m ''id''"
| "id_of _ = None"

subsection \<open>The lodash operations used on the collection\<close>

text \<open>
  \<open>{ id: req.params.id }\<close> as a lodash predicate: an element matches when it is not
  \<open>null\<close> and its \<open>id\<close> property is strictly equal (\<open>===\<close>) to the path id, which is a
  string.
\<close>

definition matches :: "string \<Rightarrow> 'n json \<Rightarrow> bool" where
  "matches ident g = (id_of g = Some (JStr ident))"

text \<open>\<open>.find({ id })\<close>: the first matching element, \<open>undefined\<close> when there is none.\<close>

definition find_games :: "string \<Rightarrow> 'n json list \<Rightarrow> 'n json option" where
  "find_games ident games = List.find (matches ident) games"

text \<open>\<open>.push(game)\<close>: \<open>Array.prototype.push\<close> on the collection.\<close>

definition push :: "'n json \<Rightarrow> 'n json list \<Rightarrow> 'n json list" where
  "push game games = games @ [game]"

text \<open>
  \<open>_.assign(object, source)\<close>: every own property of the source is written onto the
  object (\<open>object[key] = source[key]\<close>).
\<close>

fun assign :: "'n json \<Rightarrow> 'n obj \<Rightarrow> 'n json" where
  "assign (JObj m) source = JObj (m ++\<^sub>f source)"
| "assign v source = v"

text \<open>
  \<open>.find({ id }).assign(req.body)\<close>: \<open>find\<close> yields a reference to the first matching
  element and \<open>assign\<close> mutates that object, so the collection holds the merged object
  at the element's position. When nothing matches, \<open>assign\<close> works on a fresh object
  and the collection is not touched.
\<close>

fun find_assign :: "string \<Rightarrow> 'n obj \<Rightarrow> 'n json list \<Rightarrow> 'n json list" where
  "find_assign ident source [] = []"
| "find_assign ident source (g # gs) =
     (if matches ident g then assign g source # gs
      else g # find_assign ident source gs)"

text \<open>
  \<open>.remove({ id })\<close>: \<open>_.remove\<close> takes out of the array every element the predicate
  holds for, keeping the others in their order.
\<close>

definition remove_games :: "string \<Rightarrow> 'n json list \<Rightarrow> 'n json list" where
  "remove_games ident games = filter (\<lambda>g. \<not> matches ident g) games"

subsection \<open>Store exceptions\<close>

text \<open>
  A thrown exception is an error object; it is represented by the object of its
  enumerable own properties, which is what \<open>res.send(error)\<close> serialises. Evaluating a
  chain on the collection and handing the state to the adapter (\<open>.write()\<close>) are the two
  places where the store can throw; \<open>store_faults\<close> says, for the request at hand,
  whether each of them does. The file the adapter writes is not modelled: the routes
  read the collection in memory only.
\<close>

type_synonym 'n exn = "'n obj"

record 'n store_faults =
  read_throws :: "'n exn option"
  write_throws :: "'n exn option"

definition no_faults :: "'n store_faults" where
  "no_faults = \<lparr>read_throws = None, write_throws = None\<rparr>"

text \<open>\<open>.value()\<close> of a chain whose evaluation on the collection yields \<open>v\<close>.\<close>

definition chain_value :: "'n store_faults \<Rightarrow> 'a \<Rightarrow> 'n exn + 'a" where
  "chain_value faults v = (case read_throws faults of Some e \<Rightarrow> Inl e | None \<Rightarrow> Inr v)"

text \<open>
  \<open>.write()\<close> of a chain that mutates the collection into \<open>games'\<close>: the chain is
  evaluated, which mutates the array, then the adapter writes. An exception of the
  adapter leaves the mutation in memory.
\<close>

definition chain_write ::
  "'n store_faults \<Rightarrow> 'n json list \<Rightarrow> 'n json list \<Rightarrow> ('n exn + unit) \<times> 'n json list" where
  "chain_write faults games games' =
     (case read_throws faults of
        Some e \<Rightarrow> (Inl e, games)
      | None \<Rightarrow>
          (case write_throws faults of
             Some e \<Rightarrow> (Inl e, games')
           | None \<Rightarrow> (Inr (), games')))"

subsection \<open>The Express response object\<close>

datatype 'n content = Json "'n json" | Text string | NoBody

record 'n response =
  http_status :: nat
  http_body :: "'n content"

text \<open>
  \<open>res\<close>: the status code set so far and the response sent to the client, if any.
  Once a response is sent, a later \<open>send\<close> does not reach the client.
\<close>

record 'n res =
  statusCode :: nat
  sent :: "'n response option"

definition new_res :: "'n res" where
  "new_res = \<lparr>statusCode = 200, sent = None\<rparr>"

definition status :: "nat \<Rightarrow> 'n res \<Rightarrow> 'n res" where
  "status c r = r\<lparr>statusCode := c\<rparr>"

definition send :: "'n content \<Rightarrow> 'n res \<Rightarrow> 'n res" where
  "send b r =
     (case sent r of
        None \<Rightarrow> r\<lparr>sent := Some \<lparr>http_status = statusCode r, http_body = b\<rparr>\<rparr>
      | Some _ \<Rightarrow> r)"

text \<open>
  What \<open>res.send\<close> writes for an object or array (its JSON text) and for \<open>undefined\<close>
  (nothing). A lodash chain passed to \<open>res.send\<close> is serialised through its \<open>toJSON\<close>,
  which is \<open>value\<close>.
\<close>

fun content_of :: "'n json option \<Rightarrow> 'n content" where
  "content_of None = NoBody"
| "content_of (Some v) = Json v"

definition digit :: "nat \<Rightarrow> char" where
  "digit d = char_of (48 + d)"

fun decimal :: "nat \<Rightarrow> string" where
  "decimal n = (if n < 10 then [digit n] else decimal (n div 10) @ [digit (n mod 10)])"

declare decimal.simps [simp del]

text \<open>
  The status message \<open>res.sendStatus\<close> looks up (\<open>statuses.message[code] || String(code)\<close>).
  The table keeps the entries of the codes this router passes to \<open>sendStatus\<close>.
\<close>

definition status_message :: "nat \<Rightarrow> string" where
  "status_message c =
     (if c = 200 then ''OK'' else if c = 404 then ''Not Found'' else decimal c)"

text \<open>
  \<open>res.sendStatus(code)\<close> sets the status code and sends the status message as the text
  of the body.
\<close>

definition sendStatus :: "nat \<Rightarrow> 'n res \<Rightarrow> 'n res" where
  "sendStatus c r = send (Text (status_message c)) (r\<lparr>statusCode := c\<rparr>)"

subsection \<open>Identifiers\<close>

definition idLength :: nat where
  "idLength = 8"

text \<open>
  \<open>nanoid(n)\<close> concatenates \<open>n\<close> characters of its alphabet, each chosen by a random
  byte. The random choices are the argument \<open>rnd\<close>: \<open>rnd i\<close> is the \<open>i\<close>-th character drawn.
\<close>

definition nanoid :: "nat \<Rightarrow> (nat \<Rightarrow> char) \<Rightarrow> string" where
  "nanoid n rnd = map rnd [0..<n]"

subsection \<open>The route handlers\<close>

text \<open>
  A handler returns \<open>Inr res\<close>, the response object as it leaves it, or \<open>Inl e\<close> when the
  exception \<open>e\<close> leaves the handler uncaught, together with the collection afterwards.
\<close>

type_synonym 'n outcome = "('n exn + 'n res) \<times> 'n json list"

text \<open>\<open>router.get("/")\<close>\<close>

definition router_get_all :: "'n store_faults \<Rightarrow> 'n json list \<Rightarrow> 'n outcome" where
  "router_get_all faults games =
     (case chain_value faults games of
        Inl e \<Rightarrow> (Inl e, games)
      | Inr gs \<Rightarrow> (Inr (send (Json (JArr gs)) new_res), games))"

text \<open>\<open>router.get("/:id")\<close>: after \<open>sendStatus(404)\<close> the handler goes on to \<open>res.send(game)\<close>.\<close>

definition router_get :: "'n store_faults \<Rightarrow> string \<Rightarrow> 'n json list \<Rightarrow> 'n outcome" where
  "router_get faults ident games =
     (case chain_value faults (find_games ident games) of
        Inl e \<Rightarrow> (Inl e, games)
      | Inr game \<Rightarrow>
          (let r = (if game = None then sendStatus 404 new_res else new_res)
           in (Inr (send (content_of game) r), games)))"

text \<open>\<open>router.post("/")\<close>: the body is spread after the generated id.\<close>

definition router_post ::
  "'n store_faults \<Rightarrow> (nat \<Rightarrow> char) \<Rightarrow> 'n obj \<Rightarrow> 'n json list \<Rightarrow> 'n outcome" where
  "router_post faults rnd body games =
     (let game = JObj (fmupd ''id'' (JStr (nanoid idLength rnd)) fmempty ++\<^sub>f body)
      in case chain_write faults games (push game games) of
           (Inr _, games') \<Rightarrow> (Inr (send (Json game) new_res), games')
         | (Inl error, games') \<Rightarrow> (Inr (send (Json (JObj error)) (status 500 new_res)), games'))"

text \<open>\<open>router.put("/:id")\<close>: the response is a second \<open>find\<close> chain on the collection.\<close>

definition router_put ::
  "'n store_faults \<Rightarrow> string \<Rightarrow> 'n obj \<Rightarrow> 'n json list \<Rightarrow> 'n outcome" where
  "router_put faults ident body games =
     (case chain_write faults games (find_assign ident body games) of
        (Inr _, games') \<Rightarrow>
          (case chain_value faults (find_games ident games') of
             Inr game \<Rightarrow> (Inr (send (content_of game) new_res), games')
           | Inl error \<Rightarrow> (Inr (send (Json (JObj error)) (status 500 new_res)), games'))
      | (Inl error, games') \<Rightarrow> (Inr (send (Json (JObj error)) (status 500 new_res)), games'))"

text \<open>\<open>router.delete("/:id")\<close>\<close>

definition router_delete :: "'n store_faults \<Rightarrow> string \<Rightarrow> 'n json list \<Rightarrow> 'n outcome" where
  "router_delete faults ident games =
     (case chain_write faults games (remove_games ident games) of
        (Inl e, games') \<Rightarrow> (Inl e, games')
      | (Inr _, games') \<Rightarrow> (Inr (sendStatus 200 new_res), games'))"

text \<open>What the client received from a handler that answered.\<close>

definition answer :: "'n outcome \<Rightarrow> 'n response option" where
  "answer out = (case fst out of Inl e \<Rightarrow> None | Inr r \<Rightarrow> sent r)"

section \<open>Properties\<close>

subsection \<open>Auxiliary facts\<close>

lemma chain_write_ok:
  "read_throws faults = None \<Longrightarrow> write_throws faults = None \<Longrightarrow>
   chain_write faults games games' = (Inr (), games')"
  by (simp add: chain_write_def)

lemma chain_value_ok:
  "read_throws faults = None \<Longrightarrow> chain_value faults v = Inr v"
  by (simp add: chain_value_def)

lemma sent_send_new: "sent (send b new_res) = Some \<lparr>http_status = 200, http_body = b\<rparr>"
  by (simp add: send_def new_res_def)

lemma sent_send_500:
  "sent (send b (status 500 new_res)) = Some \<lparr>http_status = 500, http_body = b\<rparr>"
  by (simp add: send_def new_res_def status_def)

lemma length_nanoid: "length (nanoid n rnd) = n"
  by (simp add: nanoid_def)

lemma nanoid_constant: "nanoid idLength (\<lambda>i. CHR ''x'') = ''xxxxxxxx''"
  by (simp add: nanoid_def idLength_def upt_rec)

lemma router_post_ok:
  assumes "read_throws faults = None" and "write_throws faults = None"
  shows "router_post faults rnd body games
         = (Inr (send (Json (JObj (fmupd ''id'' (JStr (nanoid idLength rnd)) fmempty ++\<^sub>f body)))
                   new_res),
            games @ [JObj (fmupd ''id'' (JStr (nanoid idLength rnd)) fmempty ++\<^sub>f body)])"
  using assms by (simp add: router_post_def chain_write_ok push_def Let_def)

lemma find_games_None_iff:
  "find_games ident games = None \<longleftrightarrow> (\<forall>g\<in>set games. \<not> matches ident g)"
  by (auto simp: find_games_def find_None_iff)

lemma find_games_first:
  "(\<forall>x\<in>set pre. \<not> matches ident x) \<Longrightarrow> matches ident g \<Longrightarrow>
   find_games ident (pre @ g # post) = Some g"
  by (induction pre) (simp_all add: find_games_def)

lemma find_games_Some_split:
  "find_games ident games = Some g \<Longrightarrow>
   \<exists>pre post. games = pre @ g # post \<and> (\<forall>x\<in>set pre. \<not> matches ident x) \<and> matches ident g"
proof (induction games)
  case Nil
  then show ?case by (simp add: find_games_def)
next
  case (Cons a games)
  show ?case
  proof (cases "matches ident a")
    case True
    with Cons.prems have "a = g" by (simp add: find_games_def)
    with True show ?thesis by (intro exI [of _ "[]"] exI [of _ games]) simp
  next
    case False
    with Cons.prems have "find_games ident games = Some g" by (simp add: find_games_def)
    from Cons.IH [OF this] obtain pre post
      where "games = pre @ g # post" "\<forall>x\<in>set pre. \<not> matches ident x" "matches ident g"
      by blast
    with False show ?thesis
      by (intro exI [of _ "a # pre"] exI [of _ post]) simp
  qed
qed

lemma matches_JObj: "matches ident g \<Longrightarrow> \<exists>m. g = JObj m \<and> fmlookup m ''id'' = Some (JStr ident)"
  by (cases g) (simp_all add: matches_def)

lemma find_assign_no_match:
  "\<forall>g\<in>set games. \<not> matches ident g \<Longrightarrow> find_assign ident body games = games"
  by (induction games) simp_all

lemma find_assign_first:
  "(\<forall>x\<in>set pre. \<not> matches ident x) \<Longrightarrow> matches ident g \<Longrightarrow>
   find_assign ident body (pre @ g # post) = pre @ assign g body # post"
  by (induction pre) simp_all

lemma id_of_assign:
  "fmlookup body ''id'' = None \<Longrightarrow> id_of (assign g body) = id_of g"
  by (cases g) (simp_all add: fmdom_notI)

lemma id_of_assign_same:
  "matches ident g \<Longrightarrow> fmlookup body ''id'' = Some (JStr ident) \<Longrightarrow>
   id_of (assign g body) = id_of g"
  by (cases g) (auto simp: matches_def fmdomI)

lemma ids_find_assign:
  "fmlookup body ''id'' = None \<or> fmlookup body ''id'' = Some (JStr ident) \<Longrightarrow>
   map id_of (find_assign ident body games) = map id_of games"
  by (induction games) (auto simp: id_of_assign id_of_assign_same)

lemma snd_router_put:
  "snd (router_put faults ident body games)
   = (if read_throws faults = None then find_assign ident body games else games)"
  by (simp add: router_put_def chain_write_def chain_value_def split: option.splits)

lemma snd_router_delete:
  "snd (router_delete faults ident games)
   = (if read_throws faults = None then remove_games ident games else games)"
  by (simp add: router_delete_def chain_write_def split: option.splits)

lemma snd_router_post:
  "snd (router_post faults rnd body games)
   = (if read_throws faults = None
      then games @ [JObj (fmupd ''id'' (JStr (nanoid idLength rnd)) fmempty ++\<^sub>f body)]
      else games)"
  by (simp add: router_post_def chain_write_def push_def Let_def split: option.splits)

lemma router_put_ok:
  assumes "read_throws faults = None" and "write_throws faults = None"
  shows "router_put faults ident body games
         = (Inr (send (content_of (find_games ident (find_assign ident body games))) new_res),
            find_assign ident body games)"
  using assms by (simp add: router_put_def chain_write_ok chain_value_ok)

lemma router_delete_ok:
  assumes "read_throws faults = None" and "write_throws faults = None"
  shows "router_delete faults ident games = (Inr (sendStatus 200 new_res), remove_games ident games)"
  using assms by (simp add: router_delete_def chain_write_ok)

lemma sent_sendStatus_new:
  "sent (sendStatus c new_res) = Some \<lparr>http_status = c, http_body = Text (status_message c)\<rparr>"
  by (simp add: sendStatus_def send_def new_res_def)

lemma router_get_ok:
  assumes "read_throws faults = None"
  shows "answer (router_get faults ident games)
         = (case find_games ident games of
              Some g \<Rightarrow> Some \<lparr>http_status = 200, http_body = Json g\<rparr>
            | None \<Rightarrow> Some \<lparr>http_status = 404, http_body = Text ''Not Found''\<rparr>)"
  using assms
  by (simp add: router_get_def chain_value_ok answer_def sendStatus_def send_def new_res_def
      status_message_def split: option.splits)

lemma matches_assign_keeps:
  assumes "fmlookup body ''id'' = None \<or> fmlookup body ''id'' = Some (JStr ident)"
    and "matches ident (JObj m)"
  shows "matches ident (JObj (m ++\<^sub>f body))"
  using assms by (auto simp: matches_def fmdom_notI fmdomI)

subsection \<open>Create\<close>

text \<open>
  C1. When the body of a create request has an \<open>id\<close> field, the record that is stored
  and returned carries the \<open>id\<close> of the body, whatever token was generated: the body is
  spread after the generated id.
\<close>

theorem post_body_id_overrides:
  assumes "fmlookup body ''id'' = Some v"
    and "read_throws faults = None" and "write_throws faults = None"
  shows "\<exists>game. answer (router_post faults rnd body games)
                 = Some \<lparr>http_status = 200, http_body = Json (JObj game)\<rparr>
            \<and> snd (router_post faults rnd body games) = games @ [JObj game]
            \<and> fmlookup game ''id'' = Some v
            \<and> (v \<noteq> JStr (nanoid idLength rnd)
                 \<longrightarrow> fmlookup game ''id'' \<noteq> Some (JStr (nanoid idLength rnd)))"
proof -
  let ?game = "fmupd ''id'' (JStr (nanoid idLength rnd)) fmempty ++\<^sub>f body"
  from assms(1) have dom: "''id'' |\<in>| fmdom body"
    by (simp add: fmdomI)
  have out: "router_post faults rnd body games
             = (Inr (send (Json (JObj ?game)) new_res), games @ [JObj ?game])"
    using assms(2,3) by (rule router_post_ok)
  have "fmlookup ?game ''id'' = Some v"
    using assms(1) dom by simp
  with out show ?thesis
    by (intro exI [of _ ?game]) (simp add: answer_def sent_send_new)
qed

theorem post_body_id_overrides_witness:
  "fmlookup (fmupd ''id'' (JStr ''mine'') (fmupd ''title'' (JStr ''Batman'') fmempty)) ''id''
     = Some (JStr ''mine'' :: int json)
   \<and> (\<exists>game. answer (router_post no_faults (\<lambda>i. CHR ''x'')
             (fmupd ''id'' (JStr ''mine'') (fmupd ''title'' (JStr ''Batman'') fmempty))
             ([] :: int json list))
           = Some \<lparr>http_status = 200, http_body = Json (JObj game)\<rparr>
         \<and> fmlookup game ''id'' = Some (JStr ''mine'')
         \<and> fmlookup game ''id'' \<noteq> Some (JStr ''xxxxxxxx''))"
  using post_body_id_overrides
    [of "fmupd ''id'' (JStr ''mine'') (fmupd ''title'' (JStr ''Batman'') fmempty)"
      "JStr ''mine''" no_faults "\<lambda>i. CHR ''x''" "[] :: int json list"]
    nanoid_constant
  by (simp add: no_faults_def) blast

text \<open>
  C3. When the body of a create request has no \<open>id\<close> field and the store does not throw,
  the response is 200 with a record whose \<open>id\<close> is the generated token, a non-empty
  string of exactly 8 characters, and whose \<open>title\<close> and \<open>genre\<close> are those of the body.
\<close>

theorem post_generated_id:
  assumes "fmlookup body ''id'' = None"
    and "read_throws faults = None" and "write_throws faults = None"
  shows "\<exists>game tok. answer (router_post faults rnd body games)
                 = Some \<lparr>http_status = 200, http_body = Json (JObj game)\<rparr>
            \<and> fmlookup game ''id'' = Some (JStr tok)
            \<and> length tok = 8 \<and> tok \<noteq> []
            \<and> fmlookup game ''title'' = fmlookup body ''title''
            \<and> fmlookup game ''genre'' = fmlookup body ''genre''"
proof -
  let ?tok = "nanoid idLength rnd"
  let ?game = "fmupd ''id'' (JStr ?tok) fmempty ++\<^sub>f body"
  from assms(1) have dom: "''id'' |\<notin>| fmdom body"
    by (simp add: fmdom_notI)
  have len: "length ?tok = 8"
    by (simp add: length_nanoid idLength_def)
  then have ne: "?tok \<noteq> []"
    by auto
  have out: "router_post faults rnd body games
             = (Inr (send (Json (JObj ?game)) new_res), games @ [JObj ?game])"
    using assms(2,3) by (rule router_post_ok)
  have id: "fmlookup ?game ''id'' = Some (JStr ?tok)"
    using dom by simp
  have t: "fmlookup ?game ''title'' = fmlookup body ''title''"
    by (cases "fmlookup body ''title''") (auto simp: fmdom_notI fmdomI)
  have g: "fmlookup ?game ''genre'' = fmlookup body ''genre''"
    by (cases "fmlookup body ''genre''") (auto simp: fmdom_notI fmdomI)
  from out id t g len ne show ?thesis
    by (intro exI [of _ ?game] exI [of _ ?tok]) (simp add: answer_def sent_send_new)
qed

theorem post_generated_id_witness:
  "fmlookup (fmupd ''title'' (JStr ''Batman'') (fmupd ''genre'' (JStr ''Adventure'') fmempty)) ''id''
     = (None :: int json option)
   \<and> (\<exists>game tok. answer (router_post no_faults (\<lambda>i. CHR ''x'')
             (fmupd ''title'' (JStr ''Batman'') (fmupd ''genre'' (JStr ''Adventure'') fmempty))
             ([] :: int json list))
           = Some \<lparr>http_status = 200, http_body = Json (JObj game)\<rparr>
         \<and> fmlookup game ''id'' = Some (JStr tok) \<and> length tok = 8
         \<and> fmlookup game ''title'' = Some (JStr ''Batman'')
         \<and> fmlookup game ''genre'' = Some (JStr ''Adventure''))"
  using post_generated_id
    [of "fmupd ''title'' (JStr ''Batman'') (fmupd ''genre'' (JStr ''Adventure'') fmempty)"
      no_faults "\<lambda>i. CHR ''x''" "[] :: int json list"]
  by (simp add: no_faults_def) blast

subsection \<open>Read\<close>

text \<open>
  C4, as stated, fails on the body of the 404 response: \<open>res.sendStatus(404)\<close> sends the
  status message \<open>Not Found\<close> as the text of the body, so the body is not empty. The
  \<open>res.send(game)\<close> that follows finds the response already sent.
\<close>

theorem get_missing_body_counterexample:
  "answer (router_get no_faults ''a'' ([] :: int json list))
   \<noteq> Some \<lparr>http_status = 404, http_body = NoBody\<rparr>"
  by (simp add: router_get_ok no_faults_def find_games_def)

text \<open>
  C4, amended. When the store does not throw, \<open>GET /games/:id\<close> answers 200 with the JSON
  of the first element whose \<open>id\<close> is the path id when there is one, and 404 with the text
  \<open>Not Found\<close> when no element matches.
\<close>

theorem get_by_id_response:
  assumes "read_throws faults = None"
  shows "((\<forall>x\<in>set pre. \<not> matches ident x) \<and> matches ident g
            \<longrightarrow> answer (router_get faults ident (pre @ g # post))
                = Some \<lparr>http_status = 200, http_body = Json g\<rparr>)
       \<and> ((\<forall>x\<in>set games. \<not> matches ident x)
            \<longrightarrow> answer (router_get faults ident games)
                = Some \<lparr>http_status = 404, http_body = Text ''Not Found''\<rparr>)"
  using assms by (simp add: router_get_ok find_games_first find_games_None_iff [symmetric])

theorem get_by_id_response_witness:
  "read_throws (no_faults :: int store_faults) = None
   \<and> answer (router_get no_faults ''a''
        ([JObj (fmupd ''id'' (JStr ''b'') fmempty)]
          @ JObj (fmupd ''id'' (JStr ''a'') (fmupd ''title'' (JStr ''first'') fmempty))
          # [JObj (fmupd ''id'' (JStr ''a'') (fmupd ''title'' (JStr ''second'') fmempty)) :: int json]))
     = Some \<lparr>http_status = 200,
         http_body = Json (JObj (fmupd ''id'' (JStr ''a'') (fmupd ''title'' (JStr ''first'') fmempty)))\<rparr>
   \<and> answer (router_get no_faults ''c'' [JObj (fmupd ''id'' (JStr ''b'') fmempty) :: int json])
     = Some \<lparr>http_status = 404, http_body = Text ''Not Found''\<rparr>"
  using get_by_id_response [of no_faults "[JObj (fmupd ''id'' (JStr ''b'') fmempty) :: int json]" "''a''"
      "JObj (fmupd ''id'' (JStr ''a'') (fmupd ''title'' (JStr ''first'') fmempty))"
      "[JObj (fmupd ''id'' (JStr ''a'') (fmupd ''title'' (JStr ''second'') fmempty))]"
      "[]"]
    get_by_id_response [of no_faults "[]" "''c''" JNull "[]"
      "[JObj (fmupd ''id'' (JStr ''b'') fmempty) :: int json]"]
  by (simp add: no_faults_def matches_def)

subsection \<open>Update\<close>

text \<open>
  C2, as stated, fails for a payload that carries an \<open>id\<close> of its own: \<open>assign\<close> writes
  every property of the payload onto the record, \<open>id\<close> included.
\<close>

theorem put_changes_id_counterexample:
  "map id_of (snd (router_put no_faults ''a'' (fmupd ''id'' (JStr ''b'') fmempty)
             [JObj (fmupd ''id'' (JStr ''a'') fmempty) :: int json]))
   \<noteq> map id_of [JObj (fmupd ''id'' (JStr ''a'') fmempty) :: int json]"
  by (simp add: snd_router_put no_faults_def matches_def)

text \<open>
  C2, amended. For every patch payload that has no \<open>id\<close> field, or whose \<open>id\<close> is the path
  id, the update leaves the \<open>id\<close> of every stored record as it was.
\<close>

theorem put_preserves_id:
  assumes "fmlookup body ''id'' = None \<or> fmlookup body ''id'' = Some (JStr ident)"
  shows "map id_of (snd (router_put faults ident body games)) = map id_of games"
  using assms by (simp add: snd_router_put ids_find_assign)

theorem put_preserves_id_witness:
  "(fmlookup (fmupd ''genre'' (JStr ''Action'') fmempty) ''id'' = (None :: int json option)
    \<or> fmlookup (fmupd ''genre'' (JStr ''Action'') fmempty) ''id'' = Some (JStr ''a'' :: int json))
   \<and> map id_of (snd (router_put no_faults ''a'' (fmupd ''genre'' (JStr ''Action'') fmempty)
          [JObj (fmupd ''id'' (JStr ''a'') (fmupd ''genre'' (JStr ''Adventure'') fmempty)) :: int json]))
     = [Some (JStr ''a'')]"
  using put_preserves_id [of "fmupd ''genre'' (JStr ''Action'') fmempty" "''a''" no_faults
      "[JObj (fmupd ''id'' (JStr ''a'') (fmupd ''genre'' (JStr ''Adventure'') fmempty)) :: int json]"]
  by simp

text \<open>
  C6. The record that \<open>PUT /games/:id\<close> updates is the first element matching the path
  id. Afterwards that position holds a record in which every field named in the payload
  has the payload's value and every other field has the value it had; the other
  elements of the collection are as before.
\<close>

theorem put_merges_named_fields:
  assumes "read_throws faults = None"
    and "\<forall>x\<in>set pre. \<not> matches ident x" and "matches ident (JObj m)"
  shows "\<exists>m'. snd (router_put faults ident body (pre @ JObj m # post)) = pre @ JObj m' # post
            \<and> (\<forall>k. fmlookup m' k
                    = (case fmlookup body k of Some v \<Rightarrow> Some v | None \<Rightarrow> fmlookup m k))"
proof -
  have "snd (router_put faults ident body (pre @ JObj m # post))
        = pre @ JObj (m ++\<^sub>f body) # post"
    using assms by (simp add: snd_router_put find_assign_first)
  moreover have "fmlookup (m ++\<^sub>f body) k
                 = (case fmlookup body k of Some v \<Rightarrow> Some v | None \<Rightarrow> fmlookup m k)" for k
    by (cases "fmlookup body k") (auto simp: fmdom_notI fmdomI)
  ultimately show ?thesis
    by blast
qed

theorem put_merges_named_fields_witness:
  "read_throws (no_faults :: int store_faults) = None
   \<and> matches ''a'' (JObj (fmupd ''id'' (JStr ''a'')
        (fmupd ''title'' (JStr ''Batman'') (fmupd ''genre'' (JStr ''Adventure'') fmempty))) :: int json)
   \<and> (\<exists>m'. snd (router_put no_faults ''a'' (fmupd ''genre'' (JStr ''Action'') fmempty)
          ([JObj (fmupd ''id'' (JStr ''b'') fmempty)]
            @ JObj (fmupd ''id'' (JStr ''a'')
                (fmupd ''title'' (JStr ''Batman'') (fmupd ''genre'' (JStr ''Adventure'') fmempty)))
            # ([] :: int json list)))
        = [JObj (fmupd ''id'' (JStr ''b'') fmempty)] @ JObj m' # []
      \<and> fmlookup m' ''genre'' = Some (JStr ''Action'')
      \<and> fmlookup m' ''title'' = Some (JStr ''Batman'')
      \<and> fmlookup m' ''id'' = Some (JStr ''a''))"
proof -
  have "\<exists>m'. snd (router_put no_faults ''a'' (fmupd ''genre'' (JStr ''Action'') fmempty)
          ([JObj (fmupd ''id'' (JStr ''b'') fmempty)]
            @ JObj (fmupd ''id'' (JStr ''a'')
                (fmupd ''title'' (JStr ''Batman'') (fmupd ''genre'' (JStr ''Adventure'') fmempty)))
            # ([] :: int json list)))
        = [JObj (fmupd ''id'' (JStr ''b'') fmempty)] @ JObj m' # []
      \<and> (\<forall>k. fmlookup m' k
             = (case fmlookup (fmupd ''genre'' (JStr ''Action'') fmempty) k of
                  Some v \<Rightarrow> Some v
                | None \<Rightarrow> fmlookup (fmupd ''id'' (JStr ''a'')
                    (fmupd ''title'' (JStr ''Batman'')
                      (fmupd ''genre'' (JStr ''Adventure'') fmempty))) k))"
    by (rule put_merges_named_fields) (simp_all add: no_faults_def matches_def)
  then obtain m' where
    eq: "snd (router_put no_faults ''a'' (fmupd ''genre'' (JStr ''Action'') fmempty)
          ([JObj (fmupd ''id'' (JStr ''b'') fmempty)]
            @ JObj (fmupd ''id'' (JStr ''a'')
                (fmupd ''title'' (JStr ''Batman'') (fmupd ''genre'' (JStr ''Adventure'') fmempty)))
            # ([] :: int json list)))
        = [JObj (fmupd ''id'' (JStr ''b'') fmempty)] @ JObj m' # []"
    and look: "\<And>k. fmlookup m' k
             = (case fmlookup (fmupd ''genre'' (JStr ''Action'') fmempty) k of
                  Some v \<Rightarrow> Some v
                | None \<Rightarrow> fmlookup (fmupd ''id'' (JStr ''a'')
                    (fmupd ''title'' (JStr ''Batman'')
                      (fmupd ''genre'' (JStr ''Adventure'') fmempty))) k)"
    by blast
  have "fmlookup m' ''genre'' = Some (JStr ''Action'')"
    and "fmlookup m' ''title'' = Some (JStr ''Batman'')"
    and "fmlookup m' ''id'' = Some (JStr ''a'')"
    by (simp_all add: look)
  with eq show ?thesis
    by (auto simp: no_faults_def matches_def)
qed

text \<open>
  C7. When no element matches the path id, \<open>PUT /games/:id\<close> leaves the collection as it
  was, with no element added, for every payload; when the store does not throw it
  answers 200 (the lookup yields \<open>undefined\<close>, so the body is empty).
\<close>

theorem put_missing_id_is_noop:
  assumes "find_games ident games = None"
  shows "snd (router_put faults ident body games) = games
       \<and> length (snd (router_put faults ident body games)) = length games
       \<and> (read_throws faults = None \<and> write_throws faults = None
            \<longrightarrow> answer (router_put faults ident body games)
                = Some \<lparr>http_status = 200, http_body = NoBody\<rparr>)"
proof -
  from assms have none: "\<forall>g\<in>set games. \<not> matches ident g"
    by (simp add: find_games_None_iff)
  then have same: "find_assign ident body games = games"
    by (rule find_assign_no_match)
  then have "snd (router_put faults ident body games) = games"
    by (simp add: snd_router_put)
  moreover have "answer (router_put faults ident body games)
                 = Some \<lparr>http_status = 200, http_body = NoBody\<rparr>"
    if "read_throws faults = None" and "write_throws faults = None"
    using that same assms by (simp add: router_put_ok answer_def sent_send_new)
  ultimately show ?thesis
    by simp
qed

theorem put_missing_id_is_noop_witness:
  "find_games ''z'' [JObj (fmupd ''id'' (JStr ''a'') fmempty) :: int json] = None
   \<and> snd (router_put no_faults ''z'' (fmupd ''title'' (JStr ''new'') fmempty)
        [JObj (fmupd ''id'' (JStr ''a'') fmempty) :: int json])
     = [JObj (fmupd ''id'' (JStr ''a'') fmempty)]
   \<and> answer (router_put no_faults ''z'' (fmupd ''title'' (JStr ''new'') fmempty)
        [JObj (fmupd ''id'' (JStr ''a'') fmempty) :: int json])
     = Some \<lparr>http_status = 200, http_body = NoBody\<rparr>"
  using put_missing_id_is_noop [of "''z''" "[JObj (fmupd ''id'' (JStr ''a'') fmempty) :: int json]"
      no_faults "fmupd ''title'' (JStr ''new'') fmempty"]
  by (simp add: no_faults_def find_games_def matches_def)

text \<open>
  C8. The body of a successful \<open>PUT /games/:id\<close> is what a lookup of the path id yields on
  the collection after the update, which is the collection with the payload merged onto
  the first matching record. When the payload leaves the \<open>id\<close> of that record alone, the
  lookup resolves to the merged record; when it renames the record, the lookup finds
  what else carries the path id, or nothing.
\<close>

theorem put_response_is_lookup:
  assumes "read_throws faults = None" and "write_throws faults = None"
  shows "answer (router_put faults ident body games)
           = Some \<lparr>http_status = 200,
               http_body = content_of (find_games ident (find_assign ident body games))\<rparr>
       \<and> snd (router_put faults ident body games) = find_assign ident body games
       \<and> ((fmlookup body ''id'' = None \<or> fmlookup body ''id'' = Some (JStr ident))
            \<and> (\<forall>x\<in>set pre. \<not> matches ident x) \<and> matches ident (JObj m)
            \<longrightarrow> answer (router_put faults ident body (pre @ JObj m # post))
                = Some \<lparr>http_status = 200, http_body = Json (JObj (m ++\<^sub>f body))\<rparr>)"
proof -
  have out: "router_put faults ident body gs
             = (Inr (send (content_of (find_games ident (find_assign ident body gs))) new_res),
                find_assign ident body gs)" for gs
    using assms by (rule router_put_ok)
  have body: "answer (router_put faults ident body gs)
           = Some \<lparr>http_status = 200,
               http_body = content_of (find_games ident (find_assign ident body gs))\<rparr>" for gs
    by (simp add: out answer_def sent_send_new)
  have merged: "answer (router_put faults ident body (pre @ JObj m # post))
                = Some \<lparr>http_status = 200, http_body = Json (JObj (m ++\<^sub>f body))\<rparr>"
    if keep: "fmlookup body ''id'' = None \<or> fmlookup body ''id'' = Some (JStr ident)"
      and pre: "\<forall>x\<in>set pre. \<not> matches ident x" and m: "matches ident (JObj m)"
  proof -
    have "find_assign ident body (pre @ JObj m # post) = pre @ JObj (m ++\<^sub>f body) # post"
      using pre m by (simp add: find_assign_first)
    moreover have "find_games ident (pre @ JObj (m ++\<^sub>f body) # post) = Some (JObj (m ++\<^sub>f body))"
      using pre matches_assign_keeps [OF keep m] by (rule find_games_first)
    ultimately show ?thesis
      by (simp add: body)
  qed
  from body [of games] out [of games] merged show ?thesis
    by simp
qed

theorem put_response_is_lookup_witness:
  "read_throws (no_faults :: int store_faults) = None
   \<and> write_throws (no_faults :: int store_faults) = None
   \<and> answer (router_put no_faults ''a'' (fmupd ''genre'' (JStr ''Action'') fmempty)
        ([JObj (fmupd ''id'' (JStr ''b'') fmempty)]
          @ JObj (fmupd ''id'' (JStr ''a'')
              (fmupd ''title'' (JStr ''Batman'') (fmupd ''genre'' (JStr ''Adventure'') fmempty)))
          # ([] :: int json list)))
     = Some \<lparr>http_status = 200,
         http_body = Json (JObj (fmupd ''id'' (JStr ''a'')
              (fmupd ''title'' (JStr ''Batman'') (fmupd ''genre'' (JStr ''Adventure'') fmempty))
            ++\<^sub>f fmupd ''genre'' (JStr ''Action'') fmempty))\<rparr>
   \<and> answer (router_put no_faults ''a'' (fmupd ''id'' (JStr ''b'') fmempty)
        [JObj (fmupd ''id'' (JStr ''a'') fmempty) :: int json])
     = Some \<lparr>http_status = 200, http_body = NoBody\<rparr>"
  using put_response_is_lookup [of no_faults "''a''" "fmupd ''genre'' (JStr ''Action'') fmempty"
      "[]" "[JObj (fmupd ''id'' (JStr ''b'') fmempty) :: int json]"
      "fmupd ''id'' (JStr ''a'')
         (fmupd ''title'' (JStr ''Batman'') (fmupd ''genre'' (JStr ''Adventure'') fmempty))"
      "[]"]
    put_response_is_lookup [of no_faults "''a''" "fmupd ''id'' (JStr ''b'') fmempty"
      "[JObj (fmupd ''id'' (JStr ''a'') fmempty) :: int json]" "[]" fmempty "[]"]
  by (simp add: no_faults_def find_games_def matches_def)

subsection \<open>Delete\<close>

text \<open>
  C5, as stated, fails twice on a collection with two records of the same \<open>id\<close>:
  \<open>_.remove\<close> takes out both, not only the first, and \<open>res.sendStatus(200)\<close> sends the
  status message \<open>OK\<close> as the text of the body.
\<close>

theorem delete_first_empty_counterexample:
  "snd (router_delete no_faults ''a''
      [JObj (fmupd ''id'' (JStr ''a'') (fmupd ''title'' (JStr ''first'') fmempty)),
       JObj (fmupd ''id'' (JStr ''a'') (fmupd ''title'' (JStr ''second'') fmempty)) :: int json])
   \<noteq> [JObj (fmupd ''id'' (JStr ''a'') (fmupd ''title'' (JStr ''second'') fmempty))]
   \<and> answer (router_delete no_faults ''a''
      [JObj (fmupd ''id'' (JStr ''a'') (fmupd ''title'' (JStr ''first'') fmempty)),
       JObj (fmupd ''id'' (JStr ''a'') (fmupd ''title'' (JStr ''second'') fmempty)) :: int json])
   \<noteq> Some \<lparr>http_status = 200, http_body = NoBody\<rparr>"
  by (simp add: router_delete_ok no_faults_def remove_games_def matches_def answer_def
      sent_sendStatus_new)

text \<open>
  C5, amended. When the store does not throw, \<open>DELETE /games/:id\<close> removes every element
  matching the path id and answers 200 with the text \<open>OK\<close>; when no element matches,
  the collection is left as it was and the answer is the same.
\<close>

theorem delete_removes_matching:
  assumes "read_throws faults = None" and "write_throws faults = None"
  shows "answer (router_delete faults ident games)
           = Some \<lparr>http_status = 200, http_body = Text ''OK''\<rparr>
       \<and> snd (router_delete faults ident games) = filter (\<lambda>g. \<not> matches ident g) games
       \<and> (\<forall>g\<in>set (snd (router_delete faults ident games)). \<not> matches ident g)
       \<and> (find_games ident games = None \<longrightarrow> snd (router_delete faults ident games) = games)"
  using assms
  by (simp add: router_delete_ok answer_def sent_sendStatus_new status_message_def
      remove_games_def find_games_None_iff)

theorem delete_removes_matching_witness:
  "read_throws (no_faults :: int store_faults) = None
   \<and> write_throws (no_faults :: int store_faults) = None
   \<and> answer (router_delete no_faults ''a''
        [JObj (fmupd ''id'' (JStr ''a'') fmempty), JObj (fmupd ''id'' (JStr ''b'') fmempty),
         JObj (fmupd ''id'' (JStr ''a'') fmempty) :: int json])
     = Some \<lparr>http_status = 200, http_body = Text ''OK''\<rparr>
   \<and> snd (router_delete no_faults ''a''
        [JObj (fmupd ''id'' (JStr ''a'') fmempty), JObj (fmupd ''id'' (JStr ''b'') fmempty),
         JObj (fmupd ''id'' (JStr ''a'') fmempty) :: int json])
     = [JObj (fmupd ''id'' (JStr ''b'') fmempty)]"
  using delete_removes_matching [of no_faults "''a''"
      "[JObj (fmupd ''id'' (JStr ''a'') fmempty), JObj (fmupd ''id'' (JStr ''b'') fmempty),
        JObj (fmupd ''id'' (JStr ''a'') fmempty) :: int json]"]
  by (simp add: no_faults_def matches_def)

subsection \<open>The failure boundary\<close>

text \<open>
  C9. An exception \<open>e\<close> thrown by the store during create or update is caught and answered
  with 500 and \<open>e\<close> as the body. The same exception leaves the delete handler uncaught,
  and an exception thrown while the collection is read leaves the list and get-by-id
  handlers uncaught.
\<close>

theorem failure_boundary:
  "(read_throws faults = Some e \<or> (read_throws faults = None \<and> write_throws faults = Some e)
      \<longrightarrow> answer (router_post faults rnd body games)
            = Some \<lparr>http_status = 500, http_body = Json (JObj e)\<rparr>
        \<and> answer (router_put faults ident body games)
            = Some \<lparr>http_status = 500, http_body = Json (JObj e)\<rparr>
        \<and> fst (router_delete faults ident games) = Inl e)
   \<and> (read_throws faults = Some e
      \<longrightarrow> fst (router_get_all faults games) = Inl e
        \<and> fst (router_get faults ident games) = Inl e)"
  by (auto simp: router_post_def router_put_def router_delete_def router_get_all_def
      router_get_def chain_write_def chain_value_def answer_def sent_send_500 Let_def)

theorem failure_boundary_witness:
  "write_throws \<lparr>read_throws = None, write_throws = Some (fmupd ''code'' (JStr ''EACCES'') fmempty)\<rparr>
     = Some (fmupd ''code'' (JStr ''EACCES'' :: int json) fmempty)
   \<and> answer (router_post
        \<lparr>read_throws = None, write_throws = Some (fmupd ''code'' (JStr ''EACCES'') fmempty)\<rparr>
        (\<lambda>i. CHR ''x'') (fmupd ''title'' (JStr ''Batman'') fmempty) ([] :: int json list))
     = Some \<lparr>http_status = 500, http_body = Json (JObj (fmupd ''code'' (JStr ''EACCES'') fmempty))\<rparr>
   \<and> answer (router_put
        \<lparr>read_throws = None, write_throws = Some (fmupd ''code'' (JStr ''EACCES'') fmempty)\<rparr>
        ''a'' (fmupd ''title'' (JStr ''Batman'') fmempty) ([] :: int json list))
     = Some \<lparr>http_status = 500, http_body = Json (JObj (fmupd ''code'' (JStr ''EACCES'') fmempty))\<rparr>
   \<and> fst (router_delete
        \<lparr>read_throws = None, write_throws = Some (fmupd ''code'' (JStr ''EACCES'') fmempty)\<rparr>
        ''a'' ([] :: int json list))
     = Inl (fmupd ''code'' (JStr ''EACCES'') fmempty)
   \<and> fst (router_get_all
        \<lparr>read_throws = Some (fmupd ''code'' (JStr ''EIO'') fmempty), write_throws = None\<rparr>
        ([] :: int json list))
     = Inl (fmupd ''code'' (JStr ''EIO'') fmempty)
   \<and> fst (router_get
        \<lparr>read_throws = Some (fmupd ''code'' (JStr ''EIO'') fmempty), write_throws = None\<rparr>
        ''a'' ([] :: int json list))
     = Inl (fmupd ''code'' (JStr ''EIO'') fmempty)"
  using failure_boundary
      [of "\<lparr>read_throws = None, write_throws = Some (fmupd ''code'' (JStr ''EACCES'') fmempty)\<rparr>"
        "fmupd ''code'' (JStr ''EACCES'') fmempty"
        "\<lambda>i. CHR ''x''" "fmupd ''title'' (JStr ''Batman'') fmempty" "[] :: int json list" "''a''"]
    failure_boundary
      [of "\<lparr>read_throws = Some (fmupd ''code'' (JStr ''EIO'') fmempty), write_throws = None\<rparr>"
        "fmupd ''code'' (JStr ''EIO'') fmempty"
        "\<lambda>i. CHR ''x''" "fmupd ''title'' (JStr ''Batman'') fmempty" "[] :: int json list" "''a''"]
  by simp

subsection \<open>Frame\<close>

text \<open>
  C10. A create leaves every element of the collection at its position and, when it
  succeeds, appends the record it returns at the end. A delete keeps the elements that
  do not match the path id, unchanged and in their order.
\<close>

theorem mutations_touch_intended_records:
  "take (length games) (snd (router_post faults rnd body games)) = games
   \<and> (read_throws faults = None \<and> write_throws faults = None
        \<longrightarrow> (\<exists>game. snd (router_post faults rnd body games) = games @ [game]
              \<and> answer (router_post faults rnd body games)
                  = Some \<lparr>http_status = 200, http_body = Json game\<rparr>))
   \<and> filter (\<lambda>g. \<not> matches ident g) (snd (router_delete faults ident games))
       = filter (\<lambda>g. \<not> matches ident g) games
   \<and> (read_throws faults = None
        \<longrightarrow> snd (router_delete faults ident games) = filter (\<lambda>g. \<not> matches ident g) games)"
proof -
  have "take (length games) (snd (router_post faults rnd body games)) = games"
    by (simp add: snd_router_post)
  moreover have "\<exists>game. snd (router_post faults rnd body games) = games @ [game]
              \<and> answer (router_post faults rnd body games)
                  = Some \<lparr>http_status = 200, http_body = Json game\<rparr>"
    if "read_throws faults = None" and "write_throws faults = None"
    using that by (simp add: router_post_ok answer_def sent_send_new)
  moreover have "filter (\<lambda>g. \<not> matches ident g) (snd (router_delete faults ident games))
       = filter (\<lambda>g. \<not> matches ident g) games"
    by (simp add: snd_router_delete remove_games_def)
  moreover have "snd (router_delete faults ident games) = filter (\<lambda>g. \<not> matches ident g) games"
    if "read_throws faults = None"
    using that by (simp add: snd_router_delete remove_games_def)
  ultimately show ?thesis
    by blast
qed

theorem mutations_touch_intended_records_witness:
  "(\<exists>game. snd (router_post no_faults (\<lambda>i. CHR ''x'') (fmupd ''title'' (JStr ''Batman'') fmempty)
        [JObj (fmupd ''id'' (JStr ''a'') fmempty), JObj (fmupd ''id'' (JStr ''b'') fmempty) :: int json])
     = [JObj (fmupd ''id'' (JStr ''a'') fmempty), JObj (fmupd ''id'' (JStr ''b'') fmempty)] @ [game])
   \<and> snd (router_delete no_faults ''a''
        [JObj (fmupd ''id'' (JStr ''a'') fmempty), JObj (fmupd ''id'' (JStr ''b'') fmempty),
         JObj (fmupd ''id'' (JStr ''c'') fmempty) :: int json])
     = [JObj (fmupd ''id'' (JStr ''b'') fmempty), JObj (fmupd ''id'' (JStr ''c'') fmempty)]"
  using mutations_touch_intended_records [of
      "[JObj (fmupd ''id'' (JStr ''a'') fmempty), JObj (fmupd ''id'' (JStr ''b'') fmempty) :: int json]"
      no_faults "\<lambda>i. CHR ''x''" "fmupd ''title'' (JStr ''Batman'') fmempty" "''a''"]
    mutations_touch_intended_records [of
      "[JObj (fmupd ''id'' (JStr ''a'') fmempty), JObj (fmupd ''id'' (JStr ''b'') fmempty),
        JObj (fmupd ''id'' (JStr ''c'') fmempty) :: int json]"
      no_faults "\<lambda>i. CHR ''x''" "fmupd ''title'' (JStr ''Batman'') fmempty" "''a''"]
  by (auto simp: no_faults_def matches_def)

end
